theory Spec2Isabelle
  imports Main "HOL-Library.Sublist"
begin

section \<open>Python strings\<close>

text \<open>
  A Python string is a sequence of Unicode code points, here natural numbers; \<open>ascii\<close>
  gives the code points of a literal that is written with ASCII characters.
\<close>

type_synonym str = "nat list"

definition ascii :: "string \<Rightarrow> str" where
  "ascii s = map of_char s"

text \<open>
  \<open>str.lower\<close>. On ASCII it maps \<open>A\<close>..\<open>Z\<close> (65..90) to \<open>a\<close>..\<open>z\<close> and leaves every
  other character as it is. Outside ASCII the lowercase form of a character comes from
  the tables of Unicode: it has one to three code points, may be an ASCII letter (the
  Kelvin sign U+212A lowers to \<open>k\<close>) and, for the Greek capital sigma, depends on the
  characters around it. This part is the parameter \<open>unicode_lower before c after\<close>: the
  lowercase form of the non-ASCII character \<open>c\<close> between \<open>before\<close> and \<open>after\<close>. The
  parameter sees the characters around \<open>c\<close> with their ASCII letters lowered already,
  since the context rules of Unicode ask whether a neighbour is a cased letter, not which
  case it has.
\<close>

definition is_upper :: "nat \<Rightarrow> bool" where
  "is_upper c = (65 \<le> c \<and> c \<le> 90)"

definition ascii_lower :: "nat \<Rightarrow> nat" where
  "ascii_lower c = (if is_upper c then c + 32 else c)"

fun lower_from :: "(str \<Rightarrow> nat \<Rightarrow> str \<Rightarrow> str) \<Rightarrow> str \<Rightarrow> str \<Rightarrow> str" where
  "lower_from unicode_lower before [] = []"
| "lower_from unicode_lower before (c # after) =
     (if c < 128 then [c] else unicode_lower before c after) @
     lower_from unicode_lower (before @ [c]) after"

definition lower :: "(str \<Rightarrow> nat \<Rightarrow> str \<Rightarrow> str) \<Rightarrow> str \<Rightarrow> str" where
  "lower unicode_lower s = lower_from unicode_lower [] (map ascii_lower s)"

text \<open>\<open>k in s\<close> on strings: \<open>k\<close> occurs in \<open>s\<close> as a contiguous substring.\<close>

fun starts_with :: "str \<Rightarrow> str \<Rightarrow> bool" where
  "starts_with [] s = True"
| "starts_with (k # ks) [] = False"
| "starts_with (k # ks) (c # cs) = (k = c \<and> starts_with ks cs)"

fun str_contains :: "str \<Rightarrow> str \<Rightarrow> bool" where
  "str_contains k [] = (k = [])"
| "str_contains k (c # cs) = (starts_with k (c # cs) \<or> str_contains k cs)"

text \<open>\<open>any(keyword in s for keyword in keywords)\<close>\<close>

definition any_keyword_in :: "str list \<Rightarrow> str \<Rightarrow> bool" where
  "any_keyword_in keywords s = list_ex (\<lambda>keyword. str_contains keyword s) keywords"






section \<open>Chat responder: \<open>generate_ai_response\<close> (app/routers/chat.py)\<close>

definition supportive_responses :: "str list" where
  "supportive_responses = map ascii
    [''I understand how you're feeling. Would you like to explore some coping strategies together?'',
     ''That sounds challenging. Remember that it's okay to feel this way, and you're taking a positive step by reaching out.'',
     ''I'm here to support you. Would you like to try a quick mindfulness exercise?'',
     ''Your feelings are valid. Let's work through this together. What would be most helpful right now?'',
     ''Thank you for sharing that with me. How long have you been experiencing these feelings?'',
     ''It's completely normal to have these thoughts. Would you like to practice some grounding techniques?'',
     ''I appreciate you opening up to me. Sometimes talking through our feelings can really help.'',
     ''You're being very brave by reaching out. Would you like me to suggest some helpful resources?'',
     ''I hear that you're struggling. Remember that seeking help is a sign of strength, not weakness.'',
     ''Let's take this one step at a time. What's the most pressing thing on your mind right now?'']"

definition crisis_keywords :: "str list" where
  "crisis_keywords = map ascii
    [''suicide'', ''kill myself'', ''end it all'', ''harm myself'', ''die'', ''hurt myself'']"

definition anxiety_keywords :: "str list" where
  "anxiety_keywords = map ascii
    [''anxious'', ''anxiety'', ''panic'', ''worried'', ''stressed'', ''overwhelmed'']"

definition depression_keywords :: "str list" where
  "depression_keywords = map ascii
    [''depressed'', ''sad'', ''hopeless'', ''empty'', ''worthless'', ''lonely'']"

definition crisis_response :: str where
  "crisis_response = ascii ''I'm really concerned about what you're sharing with me. Your life has value and meaning. Please reach out to a crisis helpline immediately - you can call 988 (Suicide & Crisis Lifeline) or text HOME to 741741. You don't have to go through this alone. Would you like me to help you find additional professional support resources?''"

definition anxiety_response :: str where
  "anxiety_response = ascii ''I understand that anxiety can be really overwhelming. Would you like to try a quick breathing exercise together, or would you prefer to talk about what's been making you feel anxious? Remember, these feelings are temporary and manageable.''"

definition depression_response :: str where
  "depression_response = ascii ''I hear that you're going through a difficult time. These feelings of sadness are valid, and I want you to know that you're not alone. Would you like to explore some small steps that might help you feel a bit better today?''"

text \<open>
  What the responder does to the outside world is recorded as a trace: the query for the
  recent messages of the session and the chat-completion request to OpenAI.
\<close>

datatype effect = DbQuery int | OpenAICall str

text \<open>
  The outside world of one call: the configured API key, the outcome of the database
  query (\<open>None\<close>: it raises), the outcome of the OpenAI request for a message, already
  reduced to \<open>response.choices[0].message.content.strip()\<close> (\<open>None\<close>: the request or the
  extraction raises), and the number drawn by \<open>random.choice\<close>.
\<close>

record chat_env =
  openai_api_key :: "str option"
  recent_messages :: "int \<Rightarrow> (str \<times> str) list option"
  chat_completion :: "str \<Rightarrow> str option"
  random_draw :: nat

text \<open>Truth value of \<open>openai.api_key\<close>: \<open>None\<close> and the empty string are false.\<close>

definition api_key_set :: "chat_env \<Rightarrow> bool" where
  "api_key_set env = (case openai_api_key env of None \<Rightarrow> False | Some k \<Rightarrow> k \<noteq> [])"

text \<open>\<open>random.choice(seq)\<close> on a non-empty list: the element at a drawn index below its length.\<close>

definition random_choice :: "chat_env \<Rightarrow> str list \<Rightarrow> str" where
  "random_choice env seq = seq ! (random_draw env mod length seq)"

definition generate_ai_response ::
  "(str \<Rightarrow> nat \<Rightarrow> str \<Rightarrow> str) \<Rightarrow> chat_env \<Rightarrow> str \<Rightarrow> int \<Rightarrow> effect list \<times> str" where
  "generate_ai_response unicode_lower env user_message session_id =
    (let user_message_lower = lower unicode_lower user_message in
     if any_keyword_in crisis_keywords user_message_lower then ([], crisis_response)
     else if any_keyword_in anxiety_keywords user_message_lower then ([], anxiety_response)
     else if any_keyword_in depression_keywords user_message_lower then ([], depression_response)
     else if api_key_set env then
       (case recent_messages env session_id of
          None \<Rightarrow> ([DbQuery session_id], random_choice env supportive_responses)
        | Some recent \<Rightarrow>
            (case chat_completion env user_message of
               None \<Rightarrow> ([DbQuery session_id, OpenAICall user_message],
                         random_choice env supportive_responses)
             | Some content \<Rightarrow> ([DbQuery session_id, OpenAICall user_message], content)))
     else ([], random_choice env supportive_responses))"

text \<open>The branch of the \<open>if\<close>/\<open>elif\<close> chain of \<open>generate_ai_response\<close> that a message takes.\<close>

datatype tier = Crisis | Anxiety | Depression | NoTier

definition severity_tier :: "(str \<Rightarrow> nat \<Rightarrow> str \<Rightarrow> str) \<Rightarrow> str \<Rightarrow> tier" where
  "severity_tier unicode_lower user_message =
    (let user_message_lower = lower unicode_lower user_message in
     if any_keyword_in crisis_keywords user_message_lower then Crisis
     else if any_keyword_in anxiety_keywords user_message_lower then Anxiety
     else if any_keyword_in depression_keywords user_message_lower then Depression
     else NoTier)"


definition env_online :: chat_env where
  "env_online = \<lparr>openai_api_key = Some (ascii ''sk-test''), recent_messages = (\<lambda>_. Some []),
                  chat_completion = (\<lambda>_. Some (ascii ''Tell me more.'')), random_draw = 4\<rparr>"

text \<open>
  A sample of the Unicode part of \<open>str.lower\<close>, exact on the characters outside ASCII that
  the examples use: the Kelvin sign (U+212A, code 8490) lowers to \<open>k\<close>, the capital I with
  dot above (U+0130, code 304) to \<open>i\<close> followed by the combining dot U+0307, and the long
  s (U+017F, code 383), a lowercase letter, is left as it is.
\<close>

definition example_unicode_lower :: "str \<Rightarrow> nat \<Rightarrow> str \<Rightarrow> str" where
  "example_unicode_lower before c after =
     (if c = 8490 then [107] else if c = 304 then [105, 775] else [c])"


section \<open>Users table, time and HTTP errors\<close>

text \<open>
  A row of the table \<open>users\<close> (app/models.py) with the columns the authentication code
  reads or writes. \<open>email\<close> and \<open>username\<close> carry a unique constraint; \<open>reset_token\<close> and
  \<open>reset_token_expires\<close> are nullable. The table is the list of its rows in the order in
  which a query returns them. A \<open>datetime\<close> is an integer number of microseconds, a
  \<open>timedelta\<close> likewise.
\<close>

record user =
  user_id :: int
  username :: string
  email :: string
  hashed_password :: string
  is_active :: bool
  reset_token :: "string option"
  reset_token_expires :: "int option"

definition timedelta_minutes :: "int \<Rightarrow> int" where
  "timedelta_minutes n = n * 60000000"

definition timedelta_hours :: "int \<Rightarrow> int" where
  "timedelta_hours n = n * 3600000000"

text \<open>
  A raised \<open>HTTPException\<close> carries its status code and detail; any other exception that
  leaves a handler reaches the global exception handler of main.py and becomes a 500 response.
\<close>

datatype error = HTTPException nat string | UnhandledException

text \<open>\<open>db.query(User).filter(P).first()\<close>: the first row that satisfies \<open>P\<close>, or \<open>None\<close>.\<close>

definition query_first :: "(user \<Rightarrow> bool) \<Rightarrow> user list \<Rightarrow> user option" where
  "query_first P db = find P db"

text \<open>
  Assigning to attributes of the row returned by \<open>first()\<close> and committing: the first row
  that satisfies \<open>P\<close> is replaced by its updated version.
\<close>

fun update_first :: "(user \<Rightarrow> bool) \<Rightarrow> (user \<Rightarrow> user) \<Rightarrow> user list \<Rightarrow> user list" where
  "update_first P f [] = []"
| "update_first P f (x # xs) = (if P x then f x # xs else x # update_first P f xs)"


section \<open>Password-reset flow (app/routers/users.py)\<close>

text \<open>
  The message of \<open>forgot_password\<close>; its apostrophe is the character U+2019, three bytes
  in UTF-8.
\<close>

definition reset_link_message :: string where
  "reset_link_message =
     ''If an account with that email exists, we'' @ [CHR 0xE2, CHR 0x80, CHR 0x99] @
     ''ve sent a reset link.''"

text \<open>
  \<open>forgot_password\<close>, given the value of \<open>str(uuid.uuid4())\<close> and of \<open>datetime.utcnow()\<close>
  of the call. It returns the table after the call and the message of the response.
\<close>

definition forgot_password :: "string \<Rightarrow> int \<Rightarrow> user list \<Rightarrow> string \<Rightarrow> user list \<times> string" where
  "forgot_password uuid4 utcnow db payload_email =
     (case query_first (\<lambda>u. email u = payload_email) db of
        None \<Rightarrow> (db, reset_link_message)
      | Some user \<Rightarrow>
          (update_first (\<lambda>u. email u = payload_email)
             (\<lambda>u. u\<lparr>reset_token := Some uuid4,
                     reset_token_expires := Some (utcnow + timedelta_hours 1)\<rparr>) db,
           reset_link_message))"

text \<open>
  The payload of the two token endpoints is a dictionary; \<open>payload.get(k)\<close> is \<open>None\<close> for
  a missing key. A filter that compares a column with \<open>None\<close> selects the rows where the
  column is null, so both comparisons are equalities of optional values.
\<close>

definition verify_reset_token ::
  "int \<Rightarrow> user list \<Rightarrow> (string \<rightharpoonup> string) \<Rightarrow> user list \<times> (error + string)" where
  "verify_reset_token utcnow db payload =
     (let token = payload ''token''; email' = payload ''email'' in
      case query_first (\<lambda>u. Some (email u) = email' \<and> reset_token u = token) db of
        None \<Rightarrow> (db, Inl (HTTPException 400 ''Invalid or expired token''))
      | Some user \<Rightarrow>
          (case reset_token_expires user of
             None \<Rightarrow> (db, Inl (HTTPException 400 ''Invalid or expired token''))
           | Some expires \<Rightarrow>
               if expires < utcnow then (db, Inl (HTTPException 400 ''Invalid or expired token''))
               else (db, Inr ''Token is valid'')))"

text \<open>
  \<open>reset_password\<close>. The call \<open>bcrypt.hash(new_password)\<close> goes to a library outside the
  repository: it is a parameter that maps the submitted password (\<open>None\<close> when the payload
  has none) to the hash, or to \<open>None\<close> when the call raises.
\<close>

definition reset_password ::
  "(string option \<Rightarrow> string option) \<Rightarrow> int \<Rightarrow> user list \<Rightarrow> (string \<rightharpoonup> string) \<Rightarrow>
     user list \<times> (error + string)" where
  "reset_password bcrypt_hash utcnow db payload =
     (let token = payload ''token''; email' = payload ''email'';
          new_password = payload ''password'' in
      case query_first (\<lambda>u. Some (email u) = email' \<and> reset_token u = token) db of
        None \<Rightarrow> (db, Inl (HTTPException 400 ''Invalid or expired token''))
      | Some user \<Rightarrow>
          (case reset_token_expires user of
             None \<Rightarrow> (db, Inl (HTTPException 400 ''Invalid or expired token''))
           | Some expires \<Rightarrow>
               if expires < utcnow then (db, Inl (HTTPException 400 ''Invalid or expired token''))
               else
                 (case bcrypt_hash new_password of
                    None \<Rightarrow> (db, Inl UnhandledException)
                  | Some hashed \<Rightarrow>
                      (update_first (\<lambda>u. Some (email u) = email' \<and> reset_token u = token)
                         (\<lambda>u. u\<lparr>hashed_password := hashed, reset_token := None,
                                 reset_token_expires := None\<rparr>) db,
                       Inr ''Password reset successfully''))))"

text \<open>
  The condition of the specification, in two readings. \<open>token_valid_before_expiry\<close> is the
  wording "the current time is before the stored expiry"; \<open>token_valid_until_expiry\<close> also
  admits the instant of the expiry itself.
\<close>

definition token_valid_before_expiry ::
  "int \<Rightarrow> user list \<Rightarrow> string option \<Rightarrow> string option \<Rightarrow> bool" where
  "token_valid_before_expiry utcnow db email' token =
     list_ex (\<lambda>u. (Some (email u) = email' \<and> reset_token u = token) \<and>
                  (case reset_token_expires u of None \<Rightarrow> False | Some expires \<Rightarrow> utcnow < expires)) db"

definition token_valid_until_expiry ::
  "int \<Rightarrow> user list \<Rightarrow> string option \<Rightarrow> string option \<Rightarrow> bool" where
  "token_valid_until_expiry utcnow db email' token =
     list_ex (\<lambda>u. (Some (email u) = email' \<and> reset_token u = token) \<and>
                  (case reset_token_expires u of None \<Rightarrow> False | Some expires \<Rightarrow> utcnow \<le> expires)) db"


section \<open>Access tokens (app/utils/utils.py, app/core/config.py)\<close>

text \<open>
  The claims of a token are a dictionary from claim names to values: strings, numbers and,
  before encoding, \<open>datetime\<close> objects.
\<close>

datatype claim_value = Str string | Num int | Datetime int

type_synonym claims = "string \<rightharpoonup> claim_value"

definition ALGORITHM :: string where
  "ALGORITHM = ''HS256''"

definition ACCESS_TOKEN_EXPIRE_MINUTES :: int where
  "ACCESS_TOKEN_EXPIRE_MINUTES = 30"

text \<open>\<open>expires_delta or default\<close>: a \<open>timedelta\<close> is false exactly when it is zero.\<close>

definition timedelta_or :: "int option \<Rightarrow> int \<Rightarrow> int" where
  "timedelta_or expires_delta dflt =
     (case expires_delta of None \<Rightarrow> dflt | Some d \<Rightarrow> if d = 0 then dflt else d)"

text \<open>
  The JWT library is outside the repository. Its two functions are parameters:
  \<open>jwt_encode claims key algorithm\<close> is the token, and \<open>jwt_decode now token key algorithms\<close>
  is the payload read back at time \<open>now\<close>, or \<open>None\<close> when the library raises its error.
  The type of tokens is left open.
\<close>

definition create_access_token ::
  "(claims \<Rightarrow> string \<Rightarrow> string \<Rightarrow> 't) \<Rightarrow> string \<Rightarrow> int \<Rightarrow> claims \<Rightarrow> int option \<Rightarrow> 't" where
  "create_access_token jwt_encode SECRET_KEY utcnow data expires_delta =
     (let to_encode = data;
          expire = utcnow + timedelta_or expires_delta (timedelta_minutes ACCESS_TOKEN_EXPIRE_MINUTES);
          to_encode = to_encode(''exp'' \<mapsto> Datetime expire)
      in jwt_encode to_encode SECRET_KEY ALGORITHM)"


text \<open>
  The library that utils.py imports as \<open>jwt\<close> (PyJWT), in a symbolic model. A token is the
  payload together with the key and the algorithm that signed it, or a string that is no
  signed token at all. Encoding turns a \<open>datetime\<close> under one of the time claims \<open>exp\<close>,
  \<open>iat\<close>, \<open>nbf\<close> into its timestamp, a whole number of seconds. Decoding refuses a token
  that is not signed with the given key or whose algorithm is not among the given ones,
  and a token whose \<open>exp\<close> claim is not a number or is not later than the current time;
  otherwise it returns the payload as encoded. The checks that the library makes on other
  registered claims (\<open>nbf\<close>, \<open>iat\<close>, \<open>aud\<close>, the types of \<open>sub\<close> and \<open>jti\<close>) and its
  refusal to encode a \<open>datetime\<close> under another key are not modelled; \<open>plain_payload\<close>
  describes the payloads that give them nothing to refuse.
\<close>

definition timestamp :: "claim_value \<Rightarrow> claim_value" where
  "timestamp v = (case v of Datetime t \<Rightarrow> Num (t div 1000000) | Str s \<Rightarrow> Str s | Num n \<Rightarrow> Num n)"

datatype jwt = Signed claims string string | Malformed string

definition pyjwt_encode :: "claims \<Rightarrow> string \<Rightarrow> string \<Rightarrow> jwt" where
  "pyjwt_encode payload key algorithm =
     Signed (\<lambda>k. if k = ''exp'' \<or> k = ''iat'' \<or> k = ''nbf''
                  then map_option timestamp (payload k) else payload k) key algorithm"




section \<open>Authentication (app/routers/users.py)\<close>

definition credentials_exception :: error where
  "credentials_exception = HTTPException 401 ''Could not validate credentials''"

text \<open>
  \<open>AuthService.get_current_user\<close>. \<open>jose_decode\<close> is the decoder of the JWT library
  (\<open>None\<close>: it raises \<open>JWTError\<close>) and \<open>py_int\<close> is \<open>int\<close> on strings (\<open>None\<close>: it raises
  \<open>ValueError\<close>). \<open>int\<close> of a number is the number; \<open>int\<close> of a value of another type raises
  \<open>TypeError\<close>, which no handler of the function catches.
\<close>

definition get_current_user ::
  "(int \<Rightarrow> 't \<Rightarrow> string \<Rightarrow> string list \<Rightarrow> claims option) \<Rightarrow> (string \<Rightarrow> int option) \<Rightarrow> string \<Rightarrow>
     int \<Rightarrow> user list \<Rightarrow> 't \<Rightarrow> error + user" where
  "get_current_user jose_decode py_int SECRET_KEY utcnow db token =
     (case jose_decode utcnow token SECRET_KEY [ALGORITHM] of
        None \<Rightarrow> Inl credentials_exception
      | Some payload \<Rightarrow>
          (case payload ''sub'' of
             None \<Rightarrow> Inl credentials_exception
           | Some sub \<Rightarrow>
               (case (case sub of Str s \<Rightarrow> (case py_int s of None \<Rightarrow> Inl credentials_exception
                                                           | Some n \<Rightarrow> Inr n)
                               | Num n \<Rightarrow> Inr n
                               | Datetime t \<Rightarrow> Inl UnhandledException) of
                  Inl e \<Rightarrow> Inl e
                | Inr uid \<Rightarrow>
                    (case query_first (\<lambda>u. user_id u = uid) db of
                       None \<Rightarrow> Inl credentials_exception
                     | Some user \<Rightarrow> Inr user))))"

text \<open>
  \<open>authenticate_user\<close>; \<open>verify_password\<close> is the verification of the password-hashing
  library. The \<open>False\<close> of the source is \<open>None\<close>.
\<close>

definition authenticate_user ::
  "(string \<Rightarrow> string \<Rightarrow> bool) \<Rightarrow> user list \<Rightarrow> string \<Rightarrow> string \<Rightarrow> user option" where
  "authenticate_user verify_password db name password =
     (case query_first (\<lambda>u. username u = name \<or> email u = name) db of
        None \<Rightarrow> None
      | Some user \<Rightarrow>
          if \<not> verify_password password (hashed_password user) then None else Some user)"

text \<open>\<open>str\<close> of an integer: its decimal digits, with a minus sign when negative.\<close>

fun str_nat :: "nat \<Rightarrow> string" where
  "str_nat n = (if n < 10 then [char_of (48 + n)] else str_nat (n div 10) @ [char_of (48 + n mod 10)])"

declare str_nat.simps [simp del]

definition str_int :: "int \<Rightarrow> string" where
  "str_int i = (if i < 0 then CHR ''-'' # str_nat (nat (- i)) else str_nat (nat i))"

text \<open>\<open>login_user\<close>: the access token, the token type and the user, or the error raised.\<close>

definition login_user ::
  "(claims \<Rightarrow> string \<Rightarrow> string \<Rightarrow> 't) \<Rightarrow> (string \<Rightarrow> string \<Rightarrow> bool) \<Rightarrow> string \<Rightarrow> int \<Rightarrow>
     user list \<Rightarrow> string \<Rightarrow> string \<Rightarrow> error + ('t \<times> string \<times> user)" where
  "login_user jwt_encode verify_password SECRET_KEY utcnow db name password =
     (case authenticate_user verify_password db name password of
        None \<Rightarrow> Inl (HTTPException 401 ''Incorrect username or password'')
      | Some user \<Rightarrow>
          if \<not> is_active user then Inl (HTTPException 400 ''Inactive user account'')
          else
            (let access_token_expires = timedelta_minutes 30;
                 access_token = create_access_token jwt_encode SECRET_KEY utcnow
                                  [''sub'' \<mapsto> Str (str_int (user_id user))] (Some access_token_expires)
             in Inr (access_token, ''bearer'', user)))"


section \<open>Example data\<close>

definition ann :: user where
  "ann = \<lparr>user_id = 1, username = ''ann'', email = ''ann@example.org'',
          hashed_password = ''$2b$old'', is_active = True,
          reset_token = Some ''3f2a'', reset_token_expires = Some 100\<rparr>"

definition bob :: user where
  "bob = \<lparr>user_id = 2, username = ''bob'', email = ''bob@example.org'',
          hashed_password = ''$2b$bob'', is_active = True,
          reset_token = None, reset_token_expires = None\<rparr>"

definition ann_payload :: "string \<rightharpoonup> string" where
  "ann_payload = [''email'' \<mapsto> ''ann@example.org'', ''token'' \<mapsto> ''3f2a'', ''password'' \<mapsto> ''new secret'']"

definition example_hash :: "string option \<Rightarrow> string option" where
  "example_hash p = (case p of None \<Rightarrow> None | Some s \<Rightarrow> Some (''$2b$'' @ s))"

definition example_verify :: "string \<Rightarrow> string \<Rightarrow> bool" where
  "example_verify password hashed = (hashed = ''$2b$'' @ password)"

definition example_int :: "string \<Rightarrow> int option" where
  "example_int s = (if s = ''1'' then Some 1 else if s = ''7'' then Some 7 else None)"

definition example_decode :: "int \<Rightarrow> string \<Rightarrow> string \<Rightarrow> string list \<Rightarrow> claims option" where
  "example_decode now tok k algorithms =
     (if tok = ''no-sub'' then Some Map.empty
      else if tok = ''sub-abc'' then Some [''sub'' \<mapsto> Str ''abc'']
      else if tok = ''sub-7'' then Some [''sub'' \<mapsto> Str ''7'']
      else if tok = ''sub-1'' then Some [''sub'' \<mapsto> Str ''1'']
      else None)"

section \<open>Substring matching agrees with the list library\<close>

lemma starts_with_prefix: "starts_with k s = prefix k s"
  by (induction k s rule: starts_with.induct) simp_all

lemma str_contains_sublist: "str_contains k s = sublist k s"
  by (induction s) (simp_all add: starts_with_prefix sublist_Cons_right)

lemma str_contains_iff: "str_contains k s \<longleftrightarrow> (\<exists>ps ss. s = ps @ k @ ss)"
  by (simp add: str_contains_sublist sublist_def)


section \<open>Triage order\<close>


lemma kelvin_sign_example:
  "severity_tier example_unicode_lower (8490 # ascii ''ill myself'') = Crisis"
  by code_simp

text \<open>
  Claim C1. The three keyword tiers are tried in the order crisis, anxiety, depression and
  the first match decides: a message with a crisis keyword gets the crisis response
  whatever else it contains; a message with no crisis keyword but an anxiety keyword gets
  the anxiety response whatever depression keywords it contains; a message with only a
  depression keyword gets the depression response.
\<close>

theorem triage_first_match_wins:
  "(any_keyword_in crisis_keywords (lower ul m) \<longrightarrow>
      snd (generate_ai_response ul env m sid) = crisis_response) \<and>
   (\<not> any_keyword_in crisis_keywords (lower ul m) \<and> any_keyword_in anxiety_keywords (lower ul m) \<longrightarrow>
      snd (generate_ai_response ul env m sid) = anxiety_response) \<and>
   (\<not> any_keyword_in crisis_keywords (lower ul m) \<and> \<not> any_keyword_in anxiety_keywords (lower ul m) \<and>
    any_keyword_in depression_keywords (lower ul m) \<longrightarrow>
      snd (generate_ai_response ul env m sid) = depression_response)"
  by (simp add: generate_ai_response_def Let_def)

theorem triage_first_match_wins_witness:
  "any_keyword_in crisis_keywords
     (lower example_unicode_lower (ascii ''I am SAD and anxious, I want to Die'')) \<and>
   any_keyword_in anxiety_keywords
     (lower example_unicode_lower (ascii ''I am SAD and anxious, I want to Die'')) \<and>
   any_keyword_in depression_keywords
     (lower example_unicode_lower (ascii ''I am SAD and anxious, I want to Die'')) \<and>
   snd (generate_ai_response example_unicode_lower env_online
          (ascii ''I am SAD and anxious, I want to Die'') 7) = crisis_response \<and>
   \<not> any_keyword_in crisis_keywords (lower example_unicode_lower (ascii ''Worried and lonely'')) \<and>
   any_keyword_in anxiety_keywords (lower example_unicode_lower (ascii ''Worried and lonely'')) \<and>
   any_keyword_in depression_keywords (lower example_unicode_lower (ascii ''Worried and lonely'')) \<and>
   snd (generate_ai_response example_unicode_lower env_online (ascii ''Worried and lonely'') 7) =
     anxiety_response \<and>
   \<not> any_keyword_in crisis_keywords (lower example_unicode_lower (ascii ''I feel empty'')) \<and>
   \<not> any_keyword_in anxiety_keywords (lower example_unicode_lower (ascii ''I feel empty'')) \<and>
   any_keyword_in depression_keywords (lower example_unicode_lower (ascii ''I feel empty'')) \<and>
   snd (generate_ai_response example_unicode_lower env_online (ascii ''I feel empty'') 7) =
     depression_response"
proof -
  have c1: "any_keyword_in crisis_keywords
     (lower example_unicode_lower (ascii ''I am SAD and anxious, I want to Die''))"
    by code_simp
  have a1: "any_keyword_in anxiety_keywords
     (lower example_unicode_lower (ascii ''I am SAD and anxious, I want to Die''))"
    by code_simp
  have d1: "any_keyword_in depression_keywords
     (lower example_unicode_lower (ascii ''I am SAD and anxious, I want to Die''))"
    by code_simp
  have c2: "\<not> any_keyword_in crisis_keywords (lower example_unicode_lower (ascii ''Worried and lonely''))"
    by code_simp
  have a2: "any_keyword_in anxiety_keywords (lower example_unicode_lower (ascii ''Worried and lonely''))"
    by code_simp
  have d2: "any_keyword_in depression_keywords (lower example_unicode_lower (ascii ''Worried and lonely''))"
    by code_simp
  have c3: "\<not> any_keyword_in crisis_keywords (lower example_unicode_lower (ascii ''I feel empty''))"
    by code_simp
  have a3: "\<not> any_keyword_in anxiety_keywords (lower example_unicode_lower (ascii ''I feel empty''))"
    by code_simp
  have d3: "any_keyword_in depression_keywords (lower example_unicode_lower (ascii ''I feel empty''))"
    by code_simp
  note t1 = triage_first_match_wins [where ul = example_unicode_lower and env = env_online and
      sid = 7 and m = "ascii ''I am SAD and anxious, I want to Die''"]
  note t2 = triage_first_match_wins [where ul = example_unicode_lower and env = env_online and
      sid = 7 and m = "ascii ''Worried and lonely''"]
  note t3 = triage_first_match_wins [where ul = example_unicode_lower and env = env_online and
      sid = 7 and m = "ascii ''I feel empty''"]
  have r1: "snd (generate_ai_response example_unicode_lower env_online
          (ascii ''I am SAD and anxious, I want to Die'') 7) = crisis_response"
    by (rule t1 [THEN conjunct1, THEN mp, OF c1])
  have r2: "snd (generate_ai_response example_unicode_lower env_online (ascii ''Worried and lonely'') 7) =
     anxiety_response"
    by (rule t2 [THEN conjunct2, THEN conjunct1, THEN mp, OF conjI [OF c2 a2]])
  have r3: "snd (generate_ai_response example_unicode_lower env_online (ascii ''I feel empty'') 7) =
     depression_response"
    by (rule t3 [THEN conjunct2, THEN conjunct2, THEN mp, OF conjI [OF c3 conjI [OF a3 d3]]])
  from c1 a1 d1 r1 c2 a2 d2 r2 c3 a3 d3 r3 show ?thesis by blast
qed

text \<open>
  Claim C2. A message that matches a keyword of any tier gets the fixed response of its
  tier and causes no effect on the outside world: neither the database query nor the
  OpenAI request is made. An OpenAI request appears in the trace only for a message that
  matches no keyword of any tier.
\<close>

theorem triage_short_circuits_external_call:
  "(any_keyword_in crisis_keywords (lower ul m) \<or> any_keyword_in anxiety_keywords (lower ul m) \<or>
    any_keyword_in depression_keywords (lower ul m) \<longrightarrow>
      fst (generate_ai_response ul env m sid) = [] \<and>
      snd (generate_ai_response ul env m sid) =
        (if any_keyword_in crisis_keywords (lower ul m) then crisis_response
         else if any_keyword_in anxiety_keywords (lower ul m) then anxiety_response
         else depression_response)) \<and>
   ((\<exists>q. OpenAICall q \<in> set (fst (generate_ai_response ul env m sid))) \<longrightarrow>
      \<not> any_keyword_in crisis_keywords (lower ul m) \<and> \<not> any_keyword_in anxiety_keywords (lower ul m) \<and>
      \<not> any_keyword_in depression_keywords (lower ul m))"
  by (simp add: generate_ai_response_def Let_def)

theorem triage_short_circuits_external_call_witness:
  "any_keyword_in depression_keywords (lower example_unicode_lower (ascii ''So LONELY tonight'')) \<and>
   generate_ai_response example_unicode_lower env_online (ascii ''So LONELY tonight'') 7 =
     ([], depression_response) \<and>
   OpenAICall (ascii ''Good morning'') \<in>
     set (fst (generate_ai_response example_unicode_lower env_online (ascii ''Good morning'') 7)) \<and>
   \<not> any_keyword_in crisis_keywords (lower example_unicode_lower (ascii ''Good morning'')) \<and>
   \<not> any_keyword_in anxiety_keywords (lower example_unicode_lower (ascii ''Good morning'')) \<and>
   \<not> any_keyword_in depression_keywords (lower example_unicode_lower (ascii ''Good morning''))"
proof -
  have d: "any_keyword_in depression_keywords (lower example_unicode_lower (ascii ''So LONELY tonight''))"
    by code_simp
  have c: "\<not> any_keyword_in crisis_keywords (lower example_unicode_lower (ascii ''So LONELY tonight''))"
    by code_simp
  have a: "\<not> any_keyword_in anxiety_keywords (lower example_unicode_lower (ascii ''So LONELY tonight''))"
    by code_simp
  note t1 = triage_short_circuits_external_call [where ul = example_unicode_lower and
      env = env_online and sid = 7 and m = "ascii ''So LONELY tonight''"]
  note t2 = triage_short_circuits_external_call [where ul = example_unicode_lower and
      env = env_online and sid = 7 and m = "ascii ''Good morning''"]
  from t1 [THEN conjunct1, THEN mp, OF disjI2 [OF disjI2 [OF d]]] c a
  have "fst (generate_ai_response example_unicode_lower env_online (ascii ''So LONELY tonight'') 7) = [] \<and>
        snd (generate_ai_response example_unicode_lower env_online (ascii ''So LONELY tonight'') 7) =
          depression_response"
    by simp
  then have r: "generate_ai_response example_unicode_lower env_online (ascii ''So LONELY tonight'') 7 =
     ([], depression_response)"
    by (simp add: prod_eq_iff)
  have call: "OpenAICall (ascii ''Good morning'') \<in>
     set (fst (generate_ai_response example_unicode_lower env_online (ascii ''Good morning'') 7))"
    by code_simp
  then have ex: "\<exists>q. OpenAICall q \<in>
     set (fst (generate_ai_response example_unicode_lower env_online (ascii ''Good morning'') 7))"
    by blast
  from t2 [THEN conjunct2] ex
  have n: "\<not> any_keyword_in crisis_keywords (lower example_unicode_lower (ascii ''Good morning'')) \<and>
           \<not> any_keyword_in anxiety_keywords (lower example_unicode_lower (ascii ''Good morning'')) \<and>
           \<not> any_keyword_in depression_keywords (lower example_unicode_lower (ascii ''Good morning''))"
    by (rule mp)
  from d r call n show ?thesis by blast
qed


section \<open>Case-insensitive triage\<close>







section \<open>Queries on a table with unique emails\<close>

lemma query_first_SomeD: "query_first P db = Some u \<Longrightarrow> u \<in> set db \<and> P u"
  unfolding query_first_def
  by (induction db) (auto split: if_splits)

lemma query_first_NoneD: "query_first P db = None \<Longrightarrow> v \<in> set db \<Longrightarrow> \<not> P v"
  unfolding query_first_def
  by (induction db) (auto split: if_splits)

lemma unique_email_tail:
  assumes "distinct (map email (x # xs))" and "v \<in> set xs"
  shows "email v \<noteq> email x"
proof -
  from assms(1) have "email x \<notin> email ` set xs" by simp
  moreover from assms(2) have "email v \<in> email ` set xs" by (rule imageI)
  ultimately show ?thesis by auto
qed

lemma first_match_decides:
  assumes d: "distinct (map email db)" and P: "\<And>v. P v \<Longrightarrow> email v = e"
  shows "list_ex (\<lambda>u. P u \<and> Q u) db = (case query_first P db of None \<Rightarrow> False | Some u \<Rightarrow> Q u)"
  using d
proof (induction db)
  case Nil
  show ?case by (simp add: query_first_def)
next
  case (Cons x xs)
  show ?case
  proof (cases "P x")
    case True
    have "\<not> list_ex (\<lambda>u. P u \<and> Q u) xs"
    proof
      assume "list_ex (\<lambda>u. P u \<and> Q u) xs"
      then obtain v where v: "v \<in> set xs" "P v" by (auto simp: list_ex_iff)
      from v(2) True have "email v = email x" by (simp add: P)
      with unique_email_tail [OF Cons.prems v(1)] show False by simp
    qed
    with True show ?thesis by (simp add: query_first_def)
  next
    case False
    from Cons.prems have "distinct (map email xs)" by simp
    with Cons.IH False show ?thesis by (simp add: query_first_def)
  qed
qed

lemma update_first_unique:
  assumes d: "distinct (map email db)" and P: "\<And>v. P v \<Longrightarrow> email v = e"
    and q: "query_first P db = Some u"
  shows "update_first P f db = map (\<lambda>v. if email v = e then f v else v) db"
  using d q
proof (induction db)
  case Nil
  then show ?case by (simp add: query_first_def)
next
  case (Cons x xs)
  show ?case
  proof (cases "P x")
    case True
    then have ex: "email x = e" by (rule P)
    have "map (\<lambda>v. if email v = e then f v else v) xs = xs"
    proof (rule map_idI)
      fix v assume "v \<in> set xs"
      from unique_email_tail [OF Cons.prems(1) this] ex
      show "(if email v = e then f v else v) = v" by simp
    qed
    with True ex show ?thesis by simp
  next
    case False
    with Cons.prems(2) have q': "query_first P xs = Some u" by (simp add: query_first_def)
    then have "u \<in> set xs" and "P u" by (auto dest: query_first_SomeD)
    then have "email x \<noteq> e" using unique_email_tail [OF Cons.prems(1), of u] P [of u] by auto
    moreover from Cons.prems(1) have "distinct (map email xs)" by simp
    ultimately show ?thesis using Cons.IH q' False by simp
  qed
qed

lemma no_match_map_id:
  assumes "query_first (\<lambda>u. email u = e) db = None"
  shows "map (\<lambda>v. if email v = e then f v else v) db = db"
proof (rule map_idI)
  fix v assume "v \<in> set db"
  from query_first_NoneD [OF assms this] show "(if email v = e then f v else v) = v" by simp
qed

lemma token_valid_until_expiry_first:
  assumes "distinct (map email db)"
  shows "token_valid_until_expiry utcnow db em tk =
     (case query_first (\<lambda>u. Some (email u) = em \<and> reset_token u = tk) db of
        None \<Rightarrow> False
      | Some u \<Rightarrow> (case reset_token_expires u of None \<Rightarrow> False | Some expires \<Rightarrow> utcnow \<le> expires))"
  unfolding token_valid_until_expiry_def
proof (rule first_match_decides [OF assms])
  fix v assume "Some (email v) = em \<and> reset_token v = tk"
  then show "email v = the em" by auto
qed

lemma cleared_token_rejected:
  assumes c: "list_all (\<lambda>v. Some (email v) = em \<longrightarrow> reset_token_expires v = None) db"
    and e: "payload ''email'' = em"
  shows "snd (verify_reset_token utcnow db payload) = Inl (HTTPException 400 ''Invalid or expired token'')"
    and "snd (reset_password bcrypt_hash utcnow db payload) = Inl (HTTPException 400 ''Invalid or expired token'')"
proof -
  let ?P = "\<lambda>u. Some (email u) = payload ''email'' \<and> reset_token u = payload ''token''"
  have x: "reset_token_expires u = None" if "query_first ?P db = Some u" for u
  proof -
    from query_first_SomeD [OF that] have "u \<in> set db" and "Some (email u) = em"
      using e by auto
    with c show ?thesis by (auto simp: list_all_iff)
  qed
  show "snd (verify_reset_token utcnow db payload) = Inl (HTTPException 400 ''Invalid or expired token'')"
  proof (cases "query_first ?P db")
    case None
    then show ?thesis by (simp add: verify_reset_token_def Let_def)
  next
    case (Some u)
    with x [OF Some] show ?thesis by (simp add: verify_reset_token_def Let_def)
  qed
  show "snd (reset_password bcrypt_hash utcnow db payload) = Inl (HTTPException 400 ''Invalid or expired token'')"
  proof (cases "query_first ?P db")
    case None
    then show ?thesis by (simp add: reset_password_def Let_def)
  next
    case (Some u)
    with x [OF Some] show ?thesis by (simp add: reset_password_def Let_def)
  qed
qed

lemma reset_password_success:
  assumes "reset_password bcrypt_hash utcnow db payload = (db', Inr msg)"
  obtains u hashed where
    "query_first (\<lambda>u. Some (email u) = payload ''email'' \<and> reset_token u = payload ''token'') db = Some u"
    "bcrypt_hash (payload ''password'') = Some hashed"
    "db' = update_first (\<lambda>u. Some (email u) = payload ''email'' \<and> reset_token u = payload ''token'')
             (\<lambda>u. u\<lparr>hashed_password := hashed, reset_token := None, reset_token_expires := None\<rparr>) db"
  using assms
  by (auto simp: reset_password_def Let_def split: option.splits if_splits)

lemma example_emails_distinct: "distinct (map email [ann, bob])"
  by (simp add: ann_def bob_def)


section \<open>Reset-token validity\<close>

text \<open>
  Claim C3, amended at the instant of expiry. On a table with unique emails,
  \<open>verify_reset_token\<close> succeeds exactly when a user with the submitted email exists whose
  stored reset token equals the submitted token and whose stored expiry is set and not
  earlier than the current time; in every other case it fails with the 400 error.
  \<open>reset_password\<close> fails with the 400 error in exactly the same cases; otherwise it
  succeeds when the password-hashing call returns a hash.
\<close>

theorem reset_token_check:
  "distinct (map email db) \<Longrightarrow>
   snd (verify_reset_token utcnow db payload) =
     (if token_valid_until_expiry utcnow db (payload ''email'') (payload ''token'')
      then Inr ''Token is valid''
      else Inl (HTTPException 400 ''Invalid or expired token'')) \<and>
   snd (reset_password bcrypt_hash utcnow db payload) =
     (if token_valid_until_expiry utcnow db (payload ''email'') (payload ''token'')
      then (case bcrypt_hash (payload ''password'') of
              Some hashed \<Rightarrow> Inr ''Password reset successfully''
            | None \<Rightarrow> Inl UnhandledException)
      else Inl (HTTPException 400 ''Invalid or expired token''))"
proof -
  assume d: "distinct (map email db)"
  note v = token_valid_until_expiry_first [OF d, of utcnow "payload ''email''" "payload ''token''"]
  have a: "snd (verify_reset_token utcnow db payload) =
     (if token_valid_until_expiry utcnow db (payload ''email'') (payload ''token'')
      then Inr ''Token is valid''
      else Inl (HTTPException 400 ''Invalid or expired token''))"
    unfolding v verify_reset_token_def Let_def
    by (simp split: option.splits)
  have b: "snd (reset_password bcrypt_hash utcnow db payload) =
     (if token_valid_until_expiry utcnow db (payload ''email'') (payload ''token'')
      then (case bcrypt_hash (payload ''password'') of
              Some hashed \<Rightarrow> Inr ''Password reset successfully''
            | None \<Rightarrow> Inl UnhandledException)
      else Inl (HTTPException 400 ''Invalid or expired token''))"
    unfolding v reset_password_def Let_def
    by (simp split: option.splits)
  from a b show ?thesis by simp
qed

theorem reset_token_check_witness:
  "distinct (map email [ann, bob]) \<and>
   token_valid_until_expiry 100 [ann, bob] (ann_payload ''email'') (ann_payload ''token'') \<and>
   snd (verify_reset_token 100 [ann, bob] ann_payload) = Inr ''Token is valid'' \<and>
   snd (reset_password example_hash 100 [ann, bob] ann_payload) = Inr ''Password reset successfully'' \<and>
   \<not> token_valid_until_expiry 101 [ann, bob] (ann_payload ''email'') (ann_payload ''token'') \<and>
   snd (verify_reset_token 101 [ann, bob] ann_payload) = Inl (HTTPException 400 ''Invalid or expired token'') \<and>
   snd (reset_password example_hash 101 [ann, bob] ann_payload) = Inl (HTTPException 400 ''Invalid or expired token'')"
proof -
  have t: "token_valid_until_expiry 100 [ann, bob] (ann_payload ''email'') (ann_payload ''token'')"
    by (simp add: token_valid_until_expiry_def ann_def bob_def ann_payload_def)
  have f: "\<not> token_valid_until_expiry 101 [ann, bob] (ann_payload ''email'') (ann_payload ''token'')"
    by (simp add: token_valid_until_expiry_def ann_def bob_def ann_payload_def)
  have h: "example_hash (ann_payload ''password'') = Some ''$2b$new secret''"
    by (simp add: example_hash_def ann_payload_def)
  from reset_token_check [OF example_emails_distinct, of 100 ann_payload example_hash] t h
  have r1: "snd (verify_reset_token 100 [ann, bob] ann_payload) = Inr ''Token is valid'' \<and>
            snd (reset_password example_hash 100 [ann, bob] ann_payload) = Inr ''Password reset successfully''"
    by simp
  from reset_token_check [OF example_emails_distinct, of 101 ann_payload example_hash] f
  have r2: "snd (verify_reset_token 101 [ann, bob] ann_payload) = Inl (HTTPException 400 ''Invalid or expired token'') \<and>
            snd (reset_password example_hash 101 [ann, bob] ann_payload) = Inl (HTTPException 400 ''Invalid or expired token'')"
    by simp
  from example_emails_distinct t f r1 r2 show ?thesis by blast
qed

text \<open>
  The claim as it is worded fails when the current time equals the stored expiry: the
  token check passes although the current time is not before the expiry.
\<close>

theorem reset_token_check_counterexample:
  "snd (verify_reset_token 100 [ann, bob] ann_payload) = Inr ''Token is valid'' \<and>
   \<not> token_valid_before_expiry 100 [ann, bob] (ann_payload ''email'') (ann_payload ''token'')"
  by (simp add: verify_reset_token_def query_first_def token_valid_before_expiry_def
      ann_def bob_def ann_payload_def Let_def)


section \<open>Single use of a reset token\<close>

text \<open>
  Claim C4. On a table with unique emails, after \<open>reset_password\<close> has succeeded for a
  payload, the user with the submitted email is still in the table, every user with that
  email has neither a reset token nor an expiry, and any later call of
  \<open>verify_reset_token\<close> or \<open>reset_password\<close> with the same email and token fails with the
  400 error, whatever the time, the password and the hashing outcome.
\<close>

theorem reset_token_single_use:
  assumes "distinct (map email db)"
    and "reset_password bcrypt_hash utcnow db payload = (db', Inr msg)"
    and "payload' ''email'' = payload ''email''"
    and "payload' ''token'' = payload ''token''"
  shows "list_ex (\<lambda>v. Some (email v) = payload ''email'') db' \<and>
         list_all (\<lambda>v. Some (email v) = payload ''email'' \<longrightarrow>
                        reset_token v = None \<and> reset_token_expires v = None) db' \<and>
         snd (verify_reset_token utcnow' db' payload') =
           Inl (HTTPException 400 ''Invalid or expired token'') \<and>
         snd (reset_password bcrypt_hash' utcnow' db' payload') =
           Inl (HTTPException 400 ''Invalid or expired token'')"
proof -
  let ?P = "\<lambda>u. Some (email u) = payload ''email'' \<and> reset_token u = payload ''token''"
  from assms(2) obtain u hashed where
    q: "query_first ?P db = Some u" and
    db': "db' = update_first ?P
             (\<lambda>u. u\<lparr>hashed_password := hashed, reset_token := None, reset_token_expires := None\<rparr>) db"
    by (rule reset_password_success)
  let ?f = "\<lambda>u. u\<lparr>hashed_password := hashed, reset_token := None, reset_token_expires := None\<rparr>"
  from query_first_SomeD [OF q] have u: "u \<in> set db" "payload ''email'' = Some (email u)"
    by auto
  have "\<And>v. ?P v \<Longrightarrow> email v = email u" using u(2) by auto
  from update_first_unique [OF assms(1) this q, of ?f] db'
  have m: "db' = map (\<lambda>v. if email v = email u then ?f v else v) db" by simp
  let ?g = "\<lambda>v. if email v = email u then ?f v else v"
  from u(1) have "?g u \<in> ?g ` set db" by (rule imageI)
  then have "?f u \<in> set db'" unfolding m by simp
  moreover have "Some (email (?f u)) = payload ''email''" using u(2) by simp
  ultimately have ex: "list_ex (\<lambda>v. Some (email v) = payload ''email'') db'"
    unfolding list_ex_iff by (rule rev_bexI)
  have al: "list_all (\<lambda>v. Some (email v) = payload ''email'' \<longrightarrow>
                        reset_token v = None \<and> reset_token_expires v = None) db'"
    unfolding m using u(2) by (auto simp: list_all_iff)
  then have c: "list_all (\<lambda>v. Some (email v) = payload ''email'' \<longrightarrow> reset_token_expires v = None) db'"
    by (auto simp: list_all_iff)
  note r = cleared_token_rejected [where db = db' and payload = payload' and
      em = "payload ''email''", OF c assms(3)]
  from ex al r(1) [of utcnow'] r(2) [of bcrypt_hash' utcnow'] show ?thesis by simp
qed

theorem reset_token_single_use_witness:
  "distinct (map email [ann, bob]) \<and>
   reset_password example_hash 50 [ann, bob] ann_payload =
     ([ann\<lparr>hashed_password := ''$2b$new secret'', reset_token := None, reset_token_expires := None\<rparr>, bob],
      Inr ''Password reset successfully'') \<and>
   snd (verify_reset_token 60
          [ann\<lparr>hashed_password := ''$2b$new secret'', reset_token := None, reset_token_expires := None\<rparr>, bob]
          ann_payload) = Inl (HTTPException 400 ''Invalid or expired token'') \<and>
   snd (reset_password example_hash 60
          [ann\<lparr>hashed_password := ''$2b$new secret'', reset_token := None, reset_token_expires := None\<rparr>, bob]
          ann_payload) = Inl (HTTPException 400 ''Invalid or expired token'')"
proof -
  have s: "reset_password example_hash 50 [ann, bob] ann_payload =
     ([ann\<lparr>hashed_password := ''$2b$new secret'', reset_token := None, reset_token_expires := None\<rparr>, bob],
      Inr ''Password reset successfully'')"
    by (simp add: reset_password_def query_first_def example_hash_def ann_def bob_def
        ann_payload_def Let_def)
  from reset_token_single_use [OF example_emails_distinct s refl refl, of 60 example_hash]
    example_emails_distinct s
  show ?thesis by simp
qed


section \<open>Issuing a reset token\<close>

text \<open>
  Claim C6. On a table with unique emails, \<open>forgot_password\<close> leaves every user with
  another email as it is and gives the user with the submitted email the freshly generated
  token and the expiry one hour after the current time, whatever token and expiry were
  stored before; a user has one token field, so the new token is the only one.
\<close>

theorem forgot_password_overwrites_token:
  "distinct (map email db) \<Longrightarrow>
   fst (forgot_password uuid4 utcnow db e) =
     map (\<lambda>v. if email v = e
               then v\<lparr>reset_token := Some uuid4, reset_token_expires := Some (utcnow + 3600000000)\<rparr>
               else v) db"
proof -
  assume d: "distinct (map email db)"
  let ?f = "\<lambda>u. u\<lparr>reset_token := Some uuid4, reset_token_expires := Some (utcnow + 3600000000)\<rparr>"
  show ?thesis
  proof (cases "query_first (\<lambda>u. email u = e) db")
    case None
    then have "fst (forgot_password uuid4 utcnow db e) = db"
      by (simp add: forgot_password_def)
    moreover from no_match_map_id [OF None, of ?f]
    have "db = map (\<lambda>v. if email v = e then ?f v else v) db" by (rule sym)
    ultimately show ?thesis by (rule trans)
  next
    case (Some u)
    then have "fst (forgot_password uuid4 utcnow db e) = update_first (\<lambda>u. email u = e) ?f db"
      by (simp add: forgot_password_def timedelta_hours_def)
    moreover have "update_first (\<lambda>u. email u = e) ?f db =
        map (\<lambda>v. if email v = e then ?f v else v) db"
      by (rule update_first_unique [OF d _ Some]) simp
    ultimately show ?thesis by (rule trans)
  qed
qed

theorem forgot_password_overwrites_token_witness:
  "distinct (map email [ann, bob]) \<and>
   reset_token ann = Some ''3f2a'' \<and> reset_token_expires ann = Some 100 \<and>
   fst (forgot_password ''c0de'' 500 [ann, bob] ''ann@example.org'') =
     [ann\<lparr>reset_token := Some ''c0de'', reset_token_expires := Some 3600000500\<rparr>, bob]"
proof -
  have a: "reset_token ann = Some ''3f2a'' \<and> reset_token_expires ann = Some 100"
    by (simp add: ann_def)
  from forgot_password_overwrites_token [OF example_emails_distinct, of "''c0de''" 500 "''ann@example.org''"]
  have "fst (forgot_password ''c0de'' 500 [ann, bob] ''ann@example.org'') =
     [ann\<lparr>reset_token := Some ''c0de'', reset_token_expires := Some 3600000500\<rparr>, bob]"
    by (simp add: ann_def bob_def)
  with example_emails_distinct a show ?thesis by simp
qed

text \<open>
  Claim C8. The response of \<open>forgot_password\<close> is the same fixed message for every email
  and every table, whether or not a user with the email exists; when none exists the
  table is left as it is.
\<close>

theorem forgot_password_non_revealing:
  "snd (forgot_password uuid4 utcnow db e) = reset_link_message \<and>
   snd (forgot_password uuid4 utcnow db e) = snd (forgot_password uuid4' utcnow' db' e) \<and>
   (query_first (\<lambda>u. email u = e) db = None \<longrightarrow> fst (forgot_password uuid4 utcnow db e) = db)"
  by (simp add: forgot_password_def split: option.splits)

theorem forgot_password_non_revealing_witness:
  "query_first (\<lambda>u. email u = ''eve@example.org'') [ann, bob] = None \<and>
   forgot_password ''c0de'' 500 [ann, bob] ''eve@example.org'' = ([ann, bob], reset_link_message) \<and>
   snd (forgot_password ''c0de'' 500 [ann, bob] ''ann@example.org'') = reset_link_message \<and>
   fst (forgot_password ''c0de'' 500 [ann, bob] ''ann@example.org'') \<noteq> [ann, bob]"
proof -
  have n: "query_first (\<lambda>u. email u = ''eve@example.org'') [ann, bob] = None"
    by (simp add: query_first_def ann_def bob_def)
  from forgot_password_non_revealing [of "''c0de''" 500 "[ann, bob]" "''eve@example.org''"] n
  have 1: "forgot_password ''c0de'' 500 [ann, bob] ''eve@example.org'' = ([ann, bob], reset_link_message)"
    by (simp add: prod_eq_iff)
  from forgot_password_non_revealing [of "''c0de''" 500 "[ann, bob]" "''ann@example.org''"]
  have 2: "snd (forgot_password ''c0de'' 500 [ann, bob] ''ann@example.org'') = reset_link_message"
    by simp
  have 3: "fst (forgot_password ''c0de'' 500 [ann, bob] ''ann@example.org'') \<noteq> [ann, bob]"
    by (simp add: forgot_password_def query_first_def ann_def bob_def)
  from n 1 2 3 show ?thesis by simp
qed

lemma update_first_hashed_password:
  assumes "\<And>u. hashed_password (f u) = hashed_password u"
  shows "map hashed_password (update_first P f db) = map hashed_password db"
  by (induction db) (simp_all add: assms)

text \<open>
  Claim C10, amended in its closing clause. \<open>verify_reset_token\<close> is read-only: whatever
  the table, the payload and the time, and whether it succeeds or fails, the table after
  the call is the table before it, so no field of any user changes. Of the password-reset
  endpoints, \<open>forgot_password\<close> and \<open>reset_password\<close> are the ones that change the reset
  token and its expiry; \<open>forgot_password\<close> leaves every hashed password as it is, and
  \<open>reset_password\<close> changes the table only when it succeeds.
\<close>

theorem verify_reset_token_read_only:
  "fst (verify_reset_token utcnow db payload) = db \<and>
   map hashed_password (fst (forgot_password fresh utcnow db e)) = map hashed_password db \<and>
   ((\<exists>msg. snd (reset_password bcrypt_hash utcnow db payload) = Inr msg) \<or>
    fst (reset_password bcrypt_hash utcnow db payload) = db)"
proof -
  have 1: "fst (verify_reset_token utcnow db payload) = db"
    by (simp add: verify_reset_token_def Let_def split: option.splits)
  have 2: "map hashed_password (fst (forgot_password fresh utcnow db e)) = map hashed_password db"
    by (simp add: forgot_password_def update_first_hashed_password split: option.splits)
  have 3: "(\<exists>msg. snd (reset_password bcrypt_hash utcnow db payload) = Inr msg) \<or>
    fst (reset_password bcrypt_hash utcnow db payload) = db"
    by (simp add: reset_password_def Let_def split: option.splits)
  from 1 2 3 show ?thesis by blast
qed

theorem verify_reset_token_read_only_witness:
  "fst (verify_reset_token 50 [ann, bob] ann_payload) = [ann, bob] \<and>
   map hashed_password (fst (forgot_password ''c0de'' 500 [ann, bob] ''ann@example.org'')) =
     map hashed_password [ann, bob]"
proof -
  note t = verify_reset_token_read_only [where utcnow = 50 and db = "[ann, bob]" and
      payload = ann_payload and fresh = "''c0de''" and e = "''ann@example.org''" and
      bcrypt_hash = example_hash]
  note u = verify_reset_token_read_only [where utcnow = 500 and db = "[ann, bob]" and
      payload = ann_payload and fresh = "''c0de''" and e = "''ann@example.org''" and
      bcrypt_hash = example_hash]
  have 1: "fst (verify_reset_token 50 [ann, bob] ann_payload) = [ann, bob]"
    by (rule t [THEN conjunct1])
  have 2: "map hashed_password (fst (forgot_password ''c0de'' 500 [ann, bob] ''ann@example.org'')) =
     map hashed_password [ann, bob]"
    by (rule u [THEN conjunct2, THEN conjunct1])
  from 1 2 show ?thesis by blast
qed

text \<open>
  The closing clause of the claim as it is worded, that only \<open>reset_password\<close> may change
  these fields, fails: \<open>forgot_password\<close> replaces the stored reset token and its expiry.
\<close>

theorem verify_reset_token_read_only_counterexample:
  "map reset_token [ann, bob] = [Some ''3f2a'', None] \<and>
   map reset_token (fst (forgot_password ''c0de'' 500 [ann, bob] ''ann@example.org'')) =
     [Some ''c0de'', None] \<and>
   map reset_token_expires [ann, bob] = [Some 100, None] \<and>
   map reset_token_expires (fst (forgot_password ''c0de'' 500 [ann, bob] ''ann@example.org'')) =
     [Some 3600000500, None]"
  by (simp add: forgot_password_def query_first_def ann_def bob_def timedelta_hours_def)


section \<open>Access-token round trip\<close>









section \<open>Failed authentication\<close>

lemma query_first_None_iff: "query_first P db = None \<longleftrightarrow> \<not> list_ex P db"
  by (auto simp: query_first_def find_None_iff list_ex_iff)

lemma authenticate_user_None:
  assumes "\<not> list_ex (\<lambda>u. (username u = name \<or> email u = name) \<and>
                          verify_password password (hashed_password u)) db"
  shows "authenticate_user verify_password db name password = None"
proof (cases "query_first (\<lambda>u. username u = name \<or> email u = name) db")
  case None
  then show ?thesis by (simp add: authenticate_user_def)
next
  case (Some u)
  from query_first_SomeD [OF Some] assms
  have "\<not> verify_password password (hashed_password u)"
    by (auto simp: list_ex_iff)
  with Some show ?thesis by (simp add: authenticate_user_def)
qed

text \<open>
  Claim C7. \<open>get_current_user\<close> raises the 401 error when the token fails to decode, when
  the payload has no subject, when the subject is a string that \<open>int\<close> rejects, and when
  no stored user has the subject as id; \<open>login_user\<close> raises a 401 error when no stored
  user has the submitted name as username or email together with a password hash that
  the submitted password verifies against.
\<close>

theorem invalid_authentication_is_401:
  "(jose_decode utcnow token key [ALGORITHM] = None \<longrightarrow>
      get_current_user jose_decode py_int key utcnow db token =
        Inl (HTTPException 401 ''Could not validate credentials'')) \<and>
   (jose_decode utcnow token key [ALGORITHM] = Some payload \<and> payload ''sub'' = None \<longrightarrow>
      get_current_user jose_decode py_int key utcnow db token =
        Inl (HTTPException 401 ''Could not validate credentials'')) \<and>
   (jose_decode utcnow token key [ALGORITHM] = Some payload \<and> payload ''sub'' = Some (Str s) \<and>
    py_int s = None \<longrightarrow>
      get_current_user jose_decode py_int key utcnow db token =
        Inl (HTTPException 401 ''Could not validate credentials'')) \<and>
   (jose_decode utcnow token key [ALGORITHM] = Some payload \<and> payload ''sub'' = Some (Str s) \<and>
    py_int s = Some uid \<and> \<not> list_ex (\<lambda>u. user_id u = uid) db \<longrightarrow>
      get_current_user jose_decode py_int key utcnow db token =
        Inl (HTTPException 401 ''Could not validate credentials'')) \<and>
   (\<not> list_ex (\<lambda>u. (username u = name \<or> email u = name) \<and>
                    verify_password password (hashed_password u)) db \<longrightarrow>
      login_user jwt_encode verify_password key utcnow db name password =
        Inl (HTTPException 401 ''Incorrect username or password''))"
proof -
  have 1: "jose_decode utcnow token key [ALGORITHM] = None \<longrightarrow>
      get_current_user jose_decode py_int key utcnow db token =
        Inl (HTTPException 401 ''Could not validate credentials'')"
    by (simp add: get_current_user_def credentials_exception_def)
  have 2: "jose_decode utcnow token key [ALGORITHM] = Some payload \<and> payload ''sub'' = None \<longrightarrow>
      get_current_user jose_decode py_int key utcnow db token =
        Inl (HTTPException 401 ''Could not validate credentials'')"
    by (simp add: get_current_user_def credentials_exception_def)
  have 3: "jose_decode utcnow token key [ALGORITHM] = Some payload \<and> payload ''sub'' = Some (Str s) \<and>
    py_int s = None \<longrightarrow>
      get_current_user jose_decode py_int key utcnow db token =
        Inl (HTTPException 401 ''Could not validate credentials'')"
    by (simp add: get_current_user_def credentials_exception_def)
  have 4: "jose_decode utcnow token key [ALGORITHM] = Some payload \<and> payload ''sub'' = Some (Str s) \<and>
    py_int s = Some uid \<and> \<not> list_ex (\<lambda>u. user_id u = uid) db \<longrightarrow>
      get_current_user jose_decode py_int key utcnow db token =
        Inl (HTTPException 401 ''Could not validate credentials'')"
    by (simp add: get_current_user_def credentials_exception_def query_first_None_iff [symmetric])
  have 5: "\<not> list_ex (\<lambda>u. (username u = name \<or> email u = name) \<and>
                    verify_password password (hashed_password u)) db \<longrightarrow>
      login_user jwt_encode verify_password key utcnow db name password =
        Inl (HTTPException 401 ''Incorrect username or password'')"
    by (simp add: login_user_def authenticate_user_None)
  from 1 2 3 4 5 show ?thesis by blast
qed

theorem invalid_authentication_is_401_witness:
  "get_current_user example_decode example_int ''key'' 0 [ann, bob] ''garbage'' =
     Inl (HTTPException 401 ''Could not validate credentials'') \<and>
   get_current_user example_decode example_int ''key'' 0 [ann, bob] ''no-sub'' =
     Inl (HTTPException 401 ''Could not validate credentials'') \<and>
   get_current_user example_decode example_int ''key'' 0 [ann, bob] ''sub-abc'' =
     Inl (HTTPException 401 ''Could not validate credentials'') \<and>
   get_current_user example_decode example_int ''key'' 0 [ann, bob] ''sub-7'' =
     Inl (HTTPException 401 ''Could not validate credentials'') \<and>
   login_user pyjwt_encode example_verify ''key'' 0 [ann, bob] ''ann'' ''guess'' =
     Inl (HTTPException 401 ''Incorrect username or password'') \<and>
   login_user pyjwt_encode example_verify ''key'' 0 [ann, bob] ''eve'' ''old'' =
     Inl (HTTPException 401 ''Incorrect username or password'')"
proof -
  have d1: "example_decode 0 ''garbage'' ''key'' [ALGORITHM] = None"
    by (simp add: example_decode_def)
  have d2: "example_decode 0 ''no-sub'' ''key'' [ALGORITHM] = Some Map.empty \<and>
            (Map.empty :: claims) ''sub'' = None"
    by (simp add: example_decode_def)
  have d3: "example_decode 0 ''sub-abc'' ''key'' [ALGORITHM] = Some [''sub'' \<mapsto> Str ''abc''] \<and>
            [''sub'' \<mapsto> Str ''abc''] ''sub'' = Some (Str ''abc'') \<and> example_int ''abc'' = None"
    by (simp add: example_decode_def example_int_def)
  have d4: "example_decode 0 ''sub-7'' ''key'' [ALGORITHM] = Some [''sub'' \<mapsto> Str ''7''] \<and>
            [''sub'' \<mapsto> Str ''7''] ''sub'' = Some (Str ''7'') \<and> example_int ''7'' = Some 7 \<and>
            \<not> list_ex (\<lambda>u. user_id u = 7) [ann, bob]"
    by (simp add: example_decode_def example_int_def ann_def bob_def)
  have l1: "\<not> list_ex (\<lambda>u. (username u = ''ann'' \<or> email u = ''ann'') \<and>
                    example_verify ''guess'' (hashed_password u)) [ann, bob]"
    by (simp add: example_verify_def ann_def bob_def)
  have l2: "\<not> list_ex (\<lambda>u. (username u = ''eve'' \<or> email u = ''eve'') \<and>
                    example_verify ''old'' (hashed_password u)) [ann, bob]"
    by (simp add: example_verify_def ann_def bob_def)
  note t1 = invalid_authentication_is_401 [where jose_decode = example_decode and utcnow = 0 and
      token = "''garbage''" and key = "''key''" and py_int = example_int and db = "[ann, bob]" and
      payload = "Map.empty" and s = "''x''" and uid = 0 and name = "''ann''" and
      verify_password = example_verify and password = "''guess''" and
      jwt_encode = pyjwt_encode]
  note t2 = invalid_authentication_is_401 [where jose_decode = example_decode and utcnow = 0 and
      token = "''no-sub''" and key = "''key''" and py_int = example_int and db = "[ann, bob]" and
      payload = "Map.empty" and s = "''x''" and uid = 0 and name = "''ann''" and
      verify_password = example_verify and password = "''guess''" and
      jwt_encode = pyjwt_encode]
  note t3 = invalid_authentication_is_401 [where jose_decode = example_decode and utcnow = 0 and
      token = "''sub-abc''" and key = "''key''" and py_int = example_int and db = "[ann, bob]" and
      payload = "[''sub'' \<mapsto> Str ''abc'']" and s = "''abc''" and uid = 0 and name = "''ann''" and
      verify_password = example_verify and password = "''guess''" and
      jwt_encode = pyjwt_encode]
  note t4 = invalid_authentication_is_401 [where jose_decode = example_decode and utcnow = 0 and
      token = "''sub-7''" and key = "''key''" and py_int = example_int and db = "[ann, bob]" and
      payload = "[''sub'' \<mapsto> Str ''7'']" and s = "''7''" and uid = 7 and name = "''ann''" and
      verify_password = example_verify and password = "''guess''" and
      jwt_encode = pyjwt_encode]
  note t6 = invalid_authentication_is_401 [where jose_decode = example_decode and utcnow = 0 and
      token = "''garbage''" and key = "''key''" and py_int = example_int and db = "[ann, bob]" and
      payload = "Map.empty" and s = "''x''" and uid = 0 and name = "''eve''" and
      verify_password = example_verify and password = "''old''" and
      jwt_encode = pyjwt_encode]
  have 1: "get_current_user example_decode example_int ''key'' 0 [ann, bob] ''garbage'' =
     Inl (HTTPException 401 ''Could not validate credentials'')"
    by (rule t1 [THEN conjunct1, THEN mp, OF d1])
  have 2: "get_current_user example_decode example_int ''key'' 0 [ann, bob] ''no-sub'' =
     Inl (HTTPException 401 ''Could not validate credentials'')"
    by (rule t2 [THEN conjunct2, THEN conjunct1, THEN mp, OF d2])
  have 3: "get_current_user example_decode example_int ''key'' 0 [ann, bob] ''sub-abc'' =
     Inl (HTTPException 401 ''Could not validate credentials'')"
    by (rule t3 [THEN conjunct2, THEN conjunct2, THEN conjunct1, THEN mp, OF d3])
  have 4: "get_current_user example_decode example_int ''key'' 0 [ann, bob] ''sub-7'' =
     Inl (HTTPException 401 ''Could not validate credentials'')"
    by (rule t4 [THEN conjunct2, THEN conjunct2, THEN conjunct2, THEN conjunct1, THEN mp, OF d4])
  have 5: "login_user pyjwt_encode example_verify ''key'' 0 [ann, bob] ''ann'' ''guess'' =
     Inl (HTTPException 401 ''Incorrect username or password'')"
    by (rule t1 [THEN conjunct2, THEN conjunct2, THEN conjunct2, THEN conjunct2, THEN mp, OF l1])
  have 6: "login_user pyjwt_encode example_verify ''key'' 0 [ann, bob] ''eve'' ''old'' =
     Inl (HTTPException 401 ''Incorrect username or password'')"
    by (rule t6 [THEN conjunct2, THEN conjunct2, THEN conjunct2, THEN conjunct2, THEN mp, OF l2])
  from 1 2 3 4 5 6 show ?thesis by simp
qed


end
